theory Spec2Isabelle
  imports Complex_Main
begin

section \<open>Python values used by the device layer\<close>

text \<open>
  Python floats are modelled as exact reals together with the three special values.
  Rounding and overflow of the 64-bit format are not modelled; \<open>nan\<close> and the
  infinities are, because \<open>quick_query\<close> returns \<open>np.nan\<close> on every failed
  read and all comparisons with \<open>nan\<close> are false.
\<close>

datatype pyfloat = Num real | NaN | PosInf | NegInf

datatype py_error =
    ValueError string
  | AttributeError
  | IndexError
  | VisaIOError

fun fneg :: "pyfloat \<Rightarrow> pyfloat" where
  "fneg (Num x) = Num (- x)"
| "fneg NaN = NaN"
| "fneg PosInf = NegInf"
| "fneg NegInf = PosInf"

fun fadd :: "pyfloat \<Rightarrow> pyfloat \<Rightarrow> pyfloat" where
  "fadd (Num a) (Num b) = Num (a + b)"
| "fadd NaN _ = NaN"
| "fadd _ NaN = NaN"
| "fadd PosInf NegInf = NaN"
| "fadd NegInf PosInf = NaN"
| "fadd PosInf _ = PosInf"
| "fadd _ PosInf = PosInf"
| "fadd NegInf _ = NegInf"
| "fadd _ NegInf = NegInf"

definition fsub :: "pyfloat \<Rightarrow> pyfloat \<Rightarrow> pyfloat" where
  "fsub a b = fadd a (fneg b)"

text \<open>Division by a positive finite constant (the only divisors the controllers use).\<close>

fun fdiv_pos :: "pyfloat \<Rightarrow> real \<Rightarrow> pyfloat" where
  "fdiv_pos (Num a) c = Num (a / c)"
| "fdiv_pos NaN c = NaN"
| "fdiv_pos PosInf c = PosInf"
| "fdiv_pos NegInf c = NegInf"

fun flt :: "pyfloat \<Rightarrow> pyfloat \<Rightarrow> bool" where
  "flt (Num a) (Num b) = (a < b)"
| "flt NaN _ = False"
| "flt _ NaN = False"
| "flt NegInf NegInf = False"
| "flt NegInf _ = True"
| "flt PosInf _ = False"
| "flt (Num a) PosInf = True"
| "flt (Num a) NegInf = False"

definition fgt :: "pyfloat \<Rightarrow> pyfloat \<Rightarrow> bool" where
  "fgt a b = flt b a"

text \<open>Python's two-argument \<open>max(a, b)\<close> and \<open>min(a, b)\<close>: the first argument is kept
  unless the second compares strictly greater (smaller).\<close>

definition pymax :: "pyfloat \<Rightarrow> pyfloat \<Rightarrow> pyfloat" where
  "pymax a b = (if fgt b a then b else a)"

definition pymin :: "pyfloat \<Rightarrow> pyfloat \<Rightarrow> pyfloat" where
  "pymin a b = (if flt b a then b else a)"

text \<open>\<open>np.diff\<close> and \<open>np.mean\<close> on a one-dimensional array. The mean of an empty
  array is \<open>nan\<close> (with a warning, not an exception).\<close>

fun np_diff :: "pyfloat list \<Rightarrow> pyfloat list" where
  "np_diff (a # b # xs) = fsub b a # np_diff (b # xs)"
| "np_diff _ = []"

definition np_mean :: "pyfloat list \<Rightarrow> pyfloat" where
  "np_mean xs = (if xs = [] then NaN else fdiv_pos (foldl fadd (Num 0) xs) (real (length xs)))"

section \<open>Strings\<close>




text \<open>\<open>str.split(sep)\<close> for a one-character separator: always at least one field.\<close>

fun split :: "string \<Rightarrow> char \<Rightarrow> string list" where
  "split [] sep = [[]]"
| "split (c # cs) sep =
     (if c = sep then [] # split cs sep
      else (case split cs sep of [] \<Rightarrow> [[c]] | w # ws \<Rightarrow> (c # w) # ws))"




definition digit_char :: "nat \<Rightarrow> char" where
  "digit_char d = ''0123456789'' ! d"

fun str_of_nat :: "nat \<Rightarrow> string" where
  "str_of_nat n =
     (if n < 10 then [digit_char n] else str_of_nat (n div 10) @ [digit_char (n mod 10)])"

definition str_of_int :: "int \<Rightarrow> string" where
  "str_of_int i = (if i < 0 then CHR ''-'' # str_of_nat (nat (- i)) else str_of_nat (nat i))"


subsection \<open>The builtin \<open>float(str)\<close>\<close>








section \<open>devices/utils.py\<close>




section \<open>MessageBasedDevice: message framing\<close>

datatype channel = ChanInt int | ChanStr string

fun channel_token :: "channel \<Rightarrow> string" where
  "channel_token (ChanInt i) = str_of_int i"
| "channel_token (ChanStr s) = s"

definition form_message :: "string \<Rightarrow> bool \<Rightarrow> channel option \<Rightarrow> string" where
  "form_message primary_command is_query channel =
     (let message = primary_command;
          message = (if is_query then message @ ''?'' else message);
          message = (case channel of None \<Rightarrow> message | Some ch \<Rightarrow> message @ '' '' @ channel_token ch)
      in message)"



section \<open>The transport: one channel to one instrument\<close>

text \<open>
  The channel object of the transport library, as far as the device layer uses it.
  \<open>session\<close> is the library's \<open>_session is not None\<close>; \<open>respond\<close> is the
  instrument: the chunks it puts into the receive buffer for a command, each chunk being
  what one \<open>read()\<close> returns; \<open>io_log\<close> records every operation performed on
  the channel. Sleeps and the re-entrant lock are not modelled: the model is sequential.
\<close>

datatype io_event = Opened | Closed | Cleared | Wrote string "string option" | ReadOne

record resource =
  resource_name :: string
  openable :: bool
  message_based :: bool
  clear_supported :: bool
  has_bytes_in_buffer :: bool
  visa_attribute :: "string \<Rightarrow> string option"
  read_termination :: string
  session :: bool
  respond :: "string \<Rightarrow> string list"
  incoming :: "string list"
  io_log :: "io_event list"




definition resource_write :: "string \<Rightarrow> string option \<Rightarrow> resource \<Rightarrow> resource" where
  "resource_write message termination r =
     r\<lparr>incoming := incoming r @ respond r message,
       io_log := io_log r @ [Wrote message termination]\<rparr>"

text \<open>A read with nothing in the buffer times out.\<close>

definition resource_read :: "resource \<Rightarrow> (py_error + string) \<times> resource" where
  "resource_read r =
     (case incoming r of
        [] \<Rightarrow> (Inl VisaIOError, r\<lparr>io_log := io_log r @ [ReadOne]\<rparr>)
      | x # xs \<Rightarrow> (Inr x, r\<lparr>incoming := xs, io_log := io_log r @ [ReadOne]\<rparr>))"

definition resource_query :: "string \<Rightarrow> resource \<Rightarrow> (py_error + string) \<times> resource" where
  "resource_query message r = resource_read (resource_write message None r)"

definition bytes_in_buffer :: "resource \<Rightarrow> nat" where
  "bytes_in_buffer r = length (concat (incoming r))"

text \<open>The loop \<open>while bytes_in_buffer > 0: response += read()\<close>.\<close>

function read_while_bytes :: "string \<Rightarrow> resource \<Rightarrow> (py_error + string) \<times> resource" where
  "read_while_bytes response r =
     (if bytes_in_buffer r > 0 then
        (if incoming r = [] then (Inl VisaIOError, r\<lparr>io_log := io_log r @ [ReadOne]\<rparr>)
         else read_while_bytes (response @ hd (incoming r))
                (r\<lparr>incoming := tl (incoming r), io_log := io_log r @ [ReadOne]\<rparr>))
      else (Inr response, r))"
  by pat_completeness auto
termination
  by (relation "measure (\<lambda>(response, r). length (incoming r))") auto

section \<open>MessageBasedDevice: session and safe I/O\<close>

text \<open>
  The methods take the channel and return their result together with the channel as they
  leave it. Arguments that only set a delay or an encoding (the \<open>delay\<close> of
  \<open>safe_query\<close>, the \<open>encoding\<close> of \<open>safe_write\<close> and \<open>safe_read\<close>, the
  \<open>termination\<close> of \<open>safe_read\<close>) have no counterpart in the model and are left out.
\<close>

definition is_connected :: "resource \<Rightarrow> bool" where
  "is_connected mediator = session mediator"




definition safe_query :: "string \<Rightarrow> bool \<Rightarrow> resource \<Rightarrow> (py_error + string) \<times> resource" where
  "safe_query message until_buffer_empty mediator =
     (if \<not> is_connected mediator then (Inr '''', mediator)
      else (case resource_query message mediator of
              (Inl e, m) \<Rightarrow> (Inl e, m)
            | (Inr response, m) \<Rightarrow>
                if until_buffer_empty then
                  (if has_bytes_in_buffer m then read_while_bytes response m
                   else (Inl AttributeError, m))
                else (Inr response, m)))"

definition safe_write :: "string \<Rightarrow> string option \<Rightarrow> resource \<Rightarrow> (py_error + unit) \<times> resource" where
  "safe_write message termination mediator =
     (if \<not> is_connected mediator then (Inr (), mediator)
      else (Inr (), resource_write message termination mediator))"

definition safe_read :: "bool \<Rightarrow> bool \<Rightarrow> resource \<Rightarrow> (py_error + string) \<times> resource" where
  "safe_read check_buffer_before until_buffer_empty mediator =
     (if \<not> is_connected mediator then (Inr '''', mediator)
      else if check_buffer_before \<and> \<not> has_bytes_in_buffer mediator then (Inl AttributeError, mediator)
      else if check_buffer_before \<and> bytes_in_buffer mediator = 0 then (Inr '''', mediator)
      else (case resource_read mediator of
              (Inl e, m) \<Rightarrow> (Inl e, m)
            | (Inr response, m) \<Rightarrow>
                if until_buffer_empty then
                  (if has_bytes_in_buffer m then read_while_bytes response m
                   else (Inl AttributeError, m))
                else (Inr response, m)))"

section \<open>devices/utils.py: locating an instrument\<close>




definition CR :: char where "CR = CHR 0x0D"
definition LF :: char where "LF = CHR 0x0A"










section \<open>MessageBasedDevice: construction and discovery\<close>

record device =
  mediator :: resource
  instrument_repr_name :: string




section \<open>TemperatureController\<close>

datatype HeaterRangeValues = OFF | LOW | MEDIUM | HIGH

fun range_value :: "HeaterRangeValues \<Rightarrow> int" where
  "range_value OFF = 0"
| "range_value LOW = 1"
| "range_value MEDIUM = 2"
| "range_value HIGH = 3"

text \<open>The enumeration's constructor \<open>HeaterRangeValues(v)\<close>: a value that is none of
  0, 1, 2, 3 (also \<open>nan\<close>) raises \<open>ValueError\<close>.\<close>

definition HeaterRangeValues_of :: "pyfloat \<Rightarrow> py_error + HeaterRangeValues" where
  "HeaterRangeValues_of v =
     (if v = Num 0 then Inr OFF
      else if v = Num 1 then Inr LOW
      else if v = Num 2 then Inr MEDIUM
      else if v = Num 3 then Inr HIGH
      else Inl (ValueError ''is not a valid HeaterRangeValues''))"

fun HeaterMaxPercent :: "HeaterRangeValues \<Rightarrow> real" where
  "HeaterMaxPercent OFF = 100"
| "HeaterMaxPercent LOW = 80"
| "HeaterMaxPercent MEDIUM = 80"
| "HeaterMaxPercent HIGH = 50"

definition STARTING_HEATER_MIN_PERCENT :: real where
  "STARTING_HEATER_MIN_PERCENT = 10"

definition COLD_HEAD_OUT_CHANNEL :: nat where "COLD_HEAD_OUT_CHANNEL = 1"
definition SAMPLE_SPACE_OUT_CHANNEL :: nat where "SAMPLE_SPACE_OUT_CHANNEL = 2"

text \<open>
  The controller object together with the instrument it talks to. The wire format of
  numbers is abstracted: the instrument's answers to \<open>RANGE?\<close> and \<open>MOUT?\<close> on the
  two output channels are kept as the floats \<open>quick_query\<close> would parse from them
  (\<open>NaN\<close> for an answer that is no number), and a \<open>MOUT\<close> or \<open>RANGE\<close> command that
  reaches the instrument replaces the answer. A time-out of the transport is not
  modelled at this level. \<open>connected\<close> is \<open>is_connected()\<close>, \<open>available\<close> says
  whether opening the channel succeeds.

  \<open>wire\<close> lists the commands that reached the instrument, oldest first, each with the
  heater-range answer of its channel at that moment; \<open>printed\<close> lists the errors the
  control loops caught and printed. \<open>events\<close> is the store of the
  \<open>threading.Event\<close> flags created so far, which the controller and its threads
  share by index.
\<close>

datatype wire_command = MOUT nat pyfloat | RANGE nat int

record TemperatureController =
  connected :: bool
  available :: bool
  sample_space_range :: pyfloat
  sample_space_mout :: pyfloat
  cold_head_range :: pyfloat
  cold_head_mout :: pyfloat
  sample_space_warmup_target_temperature :: pyfloat
  stop_warmup_event :: "nat option"
  events :: "bool list"
  warmup_threads :: "nat list"
  wire :: "(wire_command \<times> pyfloat) list"
  printed :: "py_error list"

definition warmup_interval :: real where
  "warmup_interval = 20"

text \<open>\<open>__init__\<close>, after the base class has connected and disconnected once. The
  default target is a constant of a module outside the sources at hand, so it is a
  parameter.\<close>

definition TemperatureController_init ::
  "pyfloat \<Rightarrow> pyfloat \<Rightarrow> pyfloat \<Rightarrow> pyfloat \<Rightarrow> pyfloat \<Rightarrow> TemperatureController" where
  "TemperatureController_init SAMPLE_SPACE_WARMED_UP_TEMP r2 m2 r1 m1 =
     \<lparr>connected = False, available = True,
      sample_space_range = r2, sample_space_mout = m2,
      cold_head_range = r1, cold_head_mout = m1,
      sample_space_warmup_target_temperature = SAMPLE_SPACE_WARMED_UP_TEMP,
      stop_warmup_event = None, events = [], warmup_threads = [],
      wire = [], printed = []\<rparr>"



text \<open>\<open>quick_query\<close>: \<open>safe_query\<close> answers the empty string on a closed session,
  which is no float, so the result is \<open>nan\<close>.\<close>

definition get_sample_space_manual_output :: "TemperatureController \<Rightarrow> pyfloat" where
  "get_sample_space_manual_output tc = (if connected tc then sample_space_mout tc else NaN)"

definition get_cold_head_manual_output :: "TemperatureController \<Rightarrow> pyfloat" where
  "get_cold_head_manual_output tc = (if connected tc then cold_head_mout tc else NaN)"

definition get_sample_space_heater_range :: "TemperatureController \<Rightarrow> py_error + HeaterRangeValues" where
  "get_sample_space_heater_range tc =
     HeaterRangeValues_of (if connected tc then sample_space_range tc else NaN)"

definition get_cold_head_heater_range :: "TemperatureController \<Rightarrow> py_error + HeaterRangeValues" where
  "get_cold_head_heater_range tc =
     HeaterRangeValues_of (if connected tc then cold_head_range tc else NaN)"

text \<open>The temperature and heater-percentage readings change with time, so the
  instrument's current answer is an argument.\<close>

definition get_sample_space_temperature :: "pyfloat \<Rightarrow> TemperatureController \<Rightarrow> pyfloat" where
  "get_sample_space_temperature krdg_b tc = (if connected tc then krdg_b else NaN)"

definition get_cold_head_heater_percentage :: "pyfloat \<Rightarrow> TemperatureController \<Rightarrow> pyfloat" where
  "get_cold_head_heater_percentage htr_1 tc = (if connected tc then htr_1 else NaN)"

text \<open>\<open>quick_write\<close>: \<open>safe_write\<close> does nothing on a closed session.\<close>

definition set_sample_space_manual_output :: "pyfloat \<Rightarrow> TemperatureController \<Rightarrow> TemperatureController" where
  "set_sample_space_manual_output v tc =
     (if connected tc
      then tc\<lparr>sample_space_mout := v,
              wire := wire tc @ [(MOUT SAMPLE_SPACE_OUT_CHANNEL v, sample_space_range tc)]\<rparr>
      else tc)"

definition set_cold_head_manual_output :: "pyfloat \<Rightarrow> TemperatureController \<Rightarrow> TemperatureController" where
  "set_cold_head_manual_output v tc =
     (if connected tc
      then tc\<lparr>cold_head_mout := v,
              wire := wire tc @ [(MOUT COLD_HEAD_OUT_CHANNEL v, cold_head_range tc)]\<rparr>
      else tc)"

definition set_sample_space_heater_range :: "HeaterRangeValues \<Rightarrow> TemperatureController \<Rightarrow> TemperatureController" where
  "set_sample_space_heater_range v tc =
     (if connected tc
      then tc\<lparr>sample_space_range := Num (real_of_int (range_value v)),
              wire := wire tc @ [(RANGE SAMPLE_SPACE_OUT_CHANNEL (range_value v), sample_space_range tc)]\<rparr>
      else tc)"

definition set_cold_head_heater_range :: "HeaterRangeValues \<Rightarrow> TemperatureController \<Rightarrow> TemperatureController" where
  "set_cold_head_heater_range v tc =
     (if connected tc
      then tc\<lparr>cold_head_range := Num (real_of_int (range_value v)),
              wire := wire tc @ [(RANGE COLD_HEAD_OUT_CHANNEL (range_value v), cold_head_range tc)]\<rparr>
      else tc)"

subsection \<open>The warm-up controller\<close>

text \<open>
  \<open>check_warmup_heater_status\<close>. The result is the exception raised, if any, and the
  controller as the call leaves it: what was written before a raise stays written.
\<close>

definition check_warmup_heater_status ::
  "pyfloat list \<Rightarrow> TemperatureController \<Rightarrow> py_error option \<times> TemperatureController" where
  "check_warmup_heater_status temperature_data tc =
     (let temperature_diffs = map fneg (np_diff temperature_data);
          mean_temp_diff_per_minute = fdiv_pos (np_mean temperature_diffs) (warmup_interval / 60)
      in case get_sample_space_heater_range tc of
           Inl e \<Rightarrow> (Some e, tc)
         | Inr heater_range \<Rightarrow>
             (let heater_manual_output = get_sample_space_manual_output tc;
                  target_temperature = sample_space_warmup_target_temperature tc
              in if temperature_data = [] then (Some IndexError, tc)
                 else if fgt (last temperature_data) (fsub target_temperature (Num 2)) then
                   (if fgt mean_temp_diff_per_minute (Num 0.5)
                       \<or> fgt (last temperature_data) (fadd target_temperature (Num 2)) then
                      (let tc = set_sample_space_manual_output
                                  (pymax (fsub heater_manual_output (Num 10)) (Num 0)) tc;
                           tc = (if heater_range \<noteq> HIGH then set_sample_space_heater_range HIGH tc else tc)
                       in (None, tc))
                    else if flt mean_temp_diff_per_minute (Num (- 0.5)) then
                      (let tc = set_sample_space_manual_output
                                  (pymin (fadd heater_manual_output (Num 2)) (Num 50)) tc;
                           tc = (if heater_range \<noteq> HIGH then set_sample_space_heater_range HIGH tc else tc)
                       in (None, tc))
                    else (None, tc))
                 else if flt mean_temp_diff_per_minute (Num 1) then
                   (if heater_range = OFF then
                      (let tc = set_sample_space_manual_output (Num STARTING_HEATER_MIN_PERCENT) tc;
                           tc = set_sample_space_heater_range LOW tc
                       in (None, tc))
                    else
                      (let max_heater_value = HeaterMaxPercent heater_range
                       in if flt heater_manual_output (Num max_heater_value) then
                            (None, set_sample_space_manual_output
                                     (pymin (fadd heater_manual_output (Num 5)) (Num max_heater_value)) tc)
                          else
                            (let tc = set_sample_space_manual_output (Num STARTING_HEATER_MIN_PERCENT) tc
                             in case HeaterRangeValues_of (Num (real_of_int (range_value heater_range + 1))) of
                                  Inl e \<Rightarrow> (Some e, tc)
                                | Inr higher_heater_range \<Rightarrow>
                                    (None, set_sample_space_heater_range higher_heater_range tc))))
                 else if fgt mean_temp_diff_per_minute (Num 3) then
                   (if heater_range = OFF then (None, tc)
                    else if fgt heater_manual_output (Num STARTING_HEATER_MIN_PERCENT) then
                      (None, set_sample_space_manual_output
                               (pymax (fsub heater_manual_output (Num 5)) (Num STARTING_HEATER_MIN_PERCENT)) tc)
                    else
                      (case HeaterRangeValues_of (Num (real_of_int (range_value heater_range - 1))) of
                         Inl e \<Rightarrow> (Some e, tc)
                       | Inr lower_heater_range \<Rightarrow>
                           (let max_lower_heater_value = HeaterMaxPercent lower_heater_range;
                                tc = set_sample_space_heater_range lower_heater_range tc;
                                tc = set_sample_space_manual_output (Num max_lower_heater_value) tc
                            in (None, tc))))
                 else (None, tc)))"

text \<open>The rolling window of \<open>warmup_loop\<close> (and of \<open>stabilization_loop\<close>):
  append while shorter than \<open>max_size\<close>, otherwise rotate left, cut to \<open>max_size\<close> and
  overwrite the last entry.\<close>

definition np_roll_left :: "pyfloat list \<Rightarrow> pyfloat list" where
  "np_roll_left xs = (case xs of [] \<Rightarrow> [] | x # r \<Rightarrow> r @ [x])"

definition push_sample :: "nat \<Rightarrow> pyfloat list \<Rightarrow> pyfloat \<Rightarrow> pyfloat list" where
  "push_sample max_size data new_data =
     (if length data < max_size then data @ [new_data]
      else butlast (take max_size (np_roll_left data)) @ [new_data])"

text \<open>One pass through the body of the \<open>while\<close> loop of \<open>warmup_loop\<close>: the
  \<open>try\<close> block and its \<open>except Exception\<close>, which prints the error and goes on.\<close>

definition warmup_tick ::
  "pyfloat \<Rightarrow> pyfloat list \<times> TemperatureController \<Rightarrow> pyfloat list \<times> TemperatureController" where
  "warmup_tick krdg_b st =
     (let sample_space_data = fst st;
          tc = snd st;
          new_data = get_sample_space_temperature krdg_b tc;
          sample_space_data = push_sample 5 sample_space_data new_data
      in case check_warmup_heater_status sample_space_data tc of
           (None, tc') \<Rightarrow> (sample_space_data, tc')
         | (Some e, tc') \<Rightarrow> (sample_space_data, tc'\<lparr>printed := printed tc' @ [e]\<rparr>))"


definition start_sample_space_warmup :: "TemperatureController \<Rightarrow> TemperatureController" where
  "start_sample_space_warmup tc =
     (let e = length (events tc)
      in tc\<lparr>events := events tc @ [False],
            stop_warmup_event := Some e,
            warmup_threads := warmup_threads tc @ [e]\<rparr>)"

definition stop_sample_space_warmup :: "TemperatureController \<Rightarrow> py_error option \<times> TemperatureController" where
  "stop_sample_space_warmup tc =
     (case stop_warmup_event tc of
        None \<Rightarrow> (Some AttributeError, tc)
      | Some e \<Rightarrow>
          (let tc = tc\<lparr>events := (events tc)[e := True]\<rparr>;
               tc = set_sample_space_manual_output (Num 0) tc;
               tc = set_sample_space_heater_range OFF tc
           in (None, tc)))"

subsection \<open>ColdHeadHeaterOnPressureStabilization\<close>

record ColdHeadHeaterOnPressureStabilization =
  temperature_controller :: TemperatureController
  stop_stabilization_event :: "nat option"
  stabilization_is_on :: bool
  stabilization_events :: "bool list"
  stabilization_threads :: "nat list"
  waited :: nat

definition ColdHeadHeaterOnPressureStabilization_init ::
  "TemperatureController \<Rightarrow> ColdHeadHeaterOnPressureStabilization" where
  "ColdHeadHeaterOnPressureStabilization_init tc =
     \<lparr>temperature_controller = tc, stop_stabilization_event = None, stabilization_is_on = False,
      stabilization_events = [], stabilization_threads = [], waited = 0\<rparr>"

text \<open>\<open>attempt_stabilization_by_pressure\<close>, with the value of
  \<open>get_target_pressure()\<close> as an argument.\<close>

definition attempt_stabilization_by_pressure ::
  "pyfloat list \<Rightarrow> pyfloat \<Rightarrow> TemperatureController \<Rightarrow> TemperatureController" where
  "attempt_stabilization_by_pressure pressure_data target_pressure tc =
     (let manual_output_step = Num 5;
          mean_pressure = np_mean pressure_data
      in if flt mean_pressure target_pressure then
           (let cold_head_manual_output = get_cold_head_manual_output tc;
                new_cold_head_manual_output = pymax (fsub cold_head_manual_output manual_output_step) (Num 0)
            in set_cold_head_manual_output new_cold_head_manual_output tc)
         else
           (let cold_head_manual_output = get_cold_head_manual_output tc;
                new_cold_head_manual_output = pymin (fsub cold_head_manual_output manual_output_step) (Num 80)
            in set_cold_head_manual_output new_cold_head_manual_output tc))"






text \<open>One pass through the body of the \<open>while\<close> loop of \<open>stabilization_loop\<close>, with
  the pressure reading and the target of that moment.\<close>

definition stabilization_tick ::
  "pyfloat \<times> pyfloat \<Rightarrow> pyfloat list \<times> TemperatureController \<Rightarrow> pyfloat list \<times> TemperatureController" where
  "stabilization_tick reading st =
     (let pressure_data = push_sample 5 (fst st) (fst reading)
      in (pressure_data, attempt_stabilization_by_pressure pressure_data (snd reading) (snd st)))"


text \<open>The bounded wait of \<open>start_pressure_stabilization\<close>: \<open>is_on k\<close> is what the
  \<open>k\<close>-th look at \<open>stabilization_is_on\<close> finds; the result is the number of sleeps.\<close>

definition wait_for_previous :: "(nat \<Rightarrow> bool) \<Rightarrow> nat" where
  "wait_for_previous is_on = length (takeWhile is_on [0..<60])"

definition start_pressure_stabilization ::
  "(nat \<Rightarrow> bool) \<Rightarrow> ColdHeadHeaterOnPressureStabilization
     \<Rightarrow> py_error option \<times> ColdHeadHeaterOnPressureStabilization" where
  "start_pressure_stabilization is_on s =
     (case stop_stabilization_event s of
        None \<Rightarrow> (Some AttributeError, s)
      | Some e \<Rightarrow>
          if \<not> (e < length (stabilization_events s) \<and> stabilization_events s ! e) then (None, s)
          else
            (let counter = wait_for_previous is_on;
                 e' = length (stabilization_events s)
             in (None, s\<lparr>stabilization_events := stabilization_events s @ [False],
                         stop_stabilization_event := Some e',
                         stabilization_threads := stabilization_threads s @ [e'],
                         waited := counter\<rparr>)))"

definition stop_pressure_stabilization ::
  "ColdHeadHeaterOnPressureStabilization \<Rightarrow> py_error option \<times> ColdHeadHeaterOnPressureStabilization" where
  "stop_pressure_stabilization s =
     (case stop_stabilization_event s of
        None \<Rightarrow> (Some AttributeError, s)
      | Some e \<Rightarrow> (None, s\<lparr>stabilization_events := (stabilization_events s)[e := True]\<rparr>))"

section \<open>Concrete inputs\<close>

text \<open>A serial channel whose instrument answers the identity query in two chunks, with
  the session closed.\<close>

definition closed_channel :: resource where
  "closed_channel =
     \<lparr>resource_name = ''ASRL3::INSTR'', openable = True, message_based = True,
      clear_supported = False, has_bytes_in_buffer = True, visa_attribute = (\<lambda>a. None),
      read_termination = [CR, LF], session = False,
      respond = (\<lambda>m. if m = ''*IDN?'' then [''Arduino-'', ''Uno-R3''] else []),
      incoming = [], io_log = []\<rparr>"

text \<open>A controller whose session is open, with the given target and the given answers of
  the instrument for the sample-space output (range, manual output) and the cold-head
  output (range, manual output).\<close>

definition open_controller ::
  "pyfloat \<Rightarrow> pyfloat \<Rightarrow> pyfloat \<Rightarrow> pyfloat \<Rightarrow> pyfloat \<Rightarrow> TemperatureController" where
  "open_controller target r2 m2 r1 m1 = (TemperatureController_init target r2 m2 r1 m1)\<lparr>connected := True\<rparr>"



section \<open>Notions used to state the properties\<close>




text \<open>The commands sent between two states of the controller.\<close>

definition new_wire :: "TemperatureController \<Rightarrow> TemperatureController \<Rightarrow> (wire_command \<times> pyfloat) list" where
  "new_wire tc tc' = drop (length (wire tc)) (wire tc')"

section \<open>Message framing\<close>





text \<open>
  C8. For every primary command, query flag and optional channel, \<open>form_message\<close>
  returns the command, then \<open>?\<close> exactly when the query flag is set, then a space and
  the channel token exactly when a channel is given (so after the \<open>?\<close> when both are
  present). In particular \<open>form_message("SETP", True, "B")\<close> is \<open>"SETP? B"\<close> and
  \<open>form_message("CLR", False, None)\<close> is \<open>"CLR"\<close>.
\<close>

theorem form_message_spec:
  "form_message primary_command is_query channel =
     primary_command @ (if is_query then ''?'' else '''')
       @ (case channel of None \<Rightarrow> '''' | Some ch \<Rightarrow> '' '' @ channel_token ch)
   \<and> form_message ''SETP'' True (Some (ChanStr ''B'')) = ''SETP? B''
   \<and> form_message ''CLR'' False None = ''CLR''"
  by (simp add: form_message_def split: option.splits)

theorem form_message_spec_witness:
  "form_message ''KRDG'' True (Some (ChanInt 2)) = ''KRDG? 2''
   \<and> form_message ''MOUT'' False (Some (ChanInt (- 12))) = ''MOUT -12''"
  using form_message_spec [of "''KRDG''" True "Some (ChanInt 2)"]
        form_message_spec [of "''MOUT''" False "Some (ChanInt (- 12))"]
  by (simp add: str_of_int_def digit_char_def)



section \<open>Safe I/O on a closed session\<close>

text \<open>
  C6. For every message and every state of the channel in which the session is not open,
  \<open>safe_write\<close>, \<open>safe_read\<close> and \<open>safe_query\<close> return without raising, with the
  empty result (the empty string for read and query), and leave the channel exactly as
  it was: nothing is written, nothing is read, the log of channel operations does not
  grow.
\<close>

theorem safe_io_not_connected:
  "\<not> is_connected med \<Longrightarrow>
     safe_write message termination med = (Inr (), med)
   \<and> safe_read check_buffer_before until_buffer_empty med = (Inr '''', med)
   \<and> safe_query message until_buffer_empty med = (Inr '''', med)"
  by (simp add: safe_write_def safe_read_def safe_query_def)

theorem safe_io_not_connected_witness:
  "\<not> is_connected closed_channel
   \<and> safe_write ''MOUT 2,10'' None closed_channel = (Inr (), closed_channel)
   \<and> safe_read True True closed_channel = (Inr '''', closed_channel)
   \<and> safe_query ''*IDN?'' True closed_channel = (Inr '''', closed_channel)
   \<and> io_log (snd (safe_query ''*IDN?'' True closed_channel)) = []"
proof -
  have h: "\<not> is_connected closed_channel"
    by (simp add: is_connected_def closed_channel_def)
  show ?thesis
    using h safe_io_not_connected [OF h, of "''MOUT 2,10''" None True True]
          safe_io_not_connected [OF h, of "''*IDN?''" None True True]
    by (simp add: closed_channel_def)
qed

section \<open>The controllers\<close>

lemmas tc_eval =
  open_controller_def TemperatureController_init_def
  get_sample_space_manual_output_def get_cold_head_manual_output_def
  get_sample_space_heater_range_def get_cold_head_heater_range_def
  get_sample_space_temperature_def get_cold_head_heater_percentage_def
  set_sample_space_manual_output_def set_cold_head_manual_output_def
  set_sample_space_heater_range_def set_cold_head_heater_range_def
  HeaterRangeValues_of_def STARTING_HEATER_MIN_PERCENT_def
  COLD_HEAD_OUT_CHANNEL_def SAMPLE_SPACE_OUT_CHANNEL_def warmup_interval_def
  pymax_def pymin_def fgt_def fsub_def np_mean_def Let_def

subsection \<open>Pressure stabilization: one steady-state tick\<close>



text \<open>
  C2 (the code departs from the claim). With the mean pressure at or above the target
  the tick does not step the output up: from 40 it writes 35, where a step of 5 toward
  the ceiling would write 45. The written value is not confined to the interval from 0
  to 80 either: at or above the target an output of 2 is followed by \<open>-3\<close>, and below
  the target an output of 100 is followed by 95.
\<close>

theorem stabilization_tick_at_or_above_target_steps_down:
  "cold_head_mout (attempt_stabilization_by_pressure [Num 1.9, Num 1.8] (Num 1.7)
      (open_controller (Num 255) (Num 0) (Num 0) (Num 2) (Num 40))) = Num 35
   \<and> wire (attempt_stabilization_by_pressure [Num 1.9, Num 1.8] (Num 1.7)
      (open_controller (Num 255) (Num 0) (Num 0) (Num 2) (Num 40))) = [(MOUT 1 (Num 35), Num 2)]
   \<and> cold_head_mout (attempt_stabilization_by_pressure [Num 1.9, Num 1.8] (Num 1.7)
      (open_controller (Num 255) (Num 0) (Num 0) (Num 2) (Num 2))) = Num (- 3)
   \<and> cold_head_mout (attempt_stabilization_by_pressure [Num 1.5, Num 1.6] (Num 1.7)
      (open_controller (Num 255) (Num 0) (Num 0) (Num 2) (Num 100))) = Num 95"
  by (simp add: attempt_stabilization_by_pressure_def tc_eval)

subsection \<open>Warm-up: a tick that raises\<close>

text \<open>
  C3 (the code departs from the claim). Range HIGH, manual output 50 (the ceiling of
  HIGH), target 255 K, the sample space stalled at 100 K: the tick writes manual output
  10 and then raises \<open>ValueError\<close>, because there is no range above HIGH. The loop
  catches and prints the error and goes on, but the heater is left at HIGH with output
  10, not at the output 50 it had before the tick.
\<close>

theorem warmup_tick_raises_after_write:
  "warmup_tick (Num 100) ([Num 100], open_controller (Num 255) (Num 3) (Num 50) (Num 2) (Num 40))
   = ([Num 100, Num 100],
      (open_controller (Num 255) (Num 3) (Num 50) (Num 2) (Num 40))
        \<lparr>sample_space_mout := Num 10,
          wire := [(MOUT 2 (Num 10), Num 3)],
          printed := [ValueError ''is not a valid HeaterRangeValues'']\<rparr>)"
  by (simp add: warmup_tick_def check_warmup_heater_status_def push_sample_def tc_eval)

subsection \<open>Starting and stopping\<close>

text \<open>
  C4 (the code departs from the claim). On a stabilization object as its constructor
  leaves it, \<open>start_pressure_stabilization\<close> raises \<open>AttributeError\<close> (the stop event
  is still \<open>None\<close>), the object is unchanged, and so a second call raises again;
  \<open>stop_pressure_stabilization\<close> raises on it too, and so does
  \<open>stop_sample_space_warmup\<close> on a temperature controller on which no warm-up was ever
  started.
\<close>

theorem start_stop_raise_before_first_start:
  "start_pressure_stabilization is_on (ColdHeadHeaterOnPressureStabilization_init tc)
     = (Some AttributeError, ColdHeadHeaterOnPressureStabilization_init tc)
   \<and> start_pressure_stabilization is_on'
        (snd (start_pressure_stabilization is_on (ColdHeadHeaterOnPressureStabilization_init tc)))
     = (Some AttributeError, ColdHeadHeaterOnPressureStabilization_init tc)
   \<and> stop_pressure_stabilization (ColdHeadHeaterOnPressureStabilization_init tc)
     = (Some AttributeError, ColdHeadHeaterOnPressureStabilization_init tc)
   \<and> stop_sample_space_warmup (TemperatureController_init target r2 m2 r1 m1)
     = (Some AttributeError, TemperatureController_init target r2 m2 r1 m1)"
  by (simp add: start_pressure_stabilization_def stop_pressure_stabilization_def
        stop_sample_space_warmup_def ColdHeadHeaterOnPressureStabilization_init_def
        TemperatureController_init_def)

theorem start_stop_raise_before_first_start_witness:
  "fst (start_pressure_stabilization (\<lambda>k. False)
          (ColdHeadHeaterOnPressureStabilization_init
             (open_controller (Num 255) (Num 0) (Num 0) (Num 2) (Num 40)))) = Some AttributeError
   \<and> fst (stop_sample_space_warmup (TemperatureController_init (Num 255) (Num 0) (Num 0) (Num 2) (Num 40)))
       = Some AttributeError"
  using start_stop_raise_before_first_start
          [of "\<lambda>k. False" "open_controller (Num 255) (Num 0) (Num 0) (Num 2) (Num 40)"
              "\<lambda>k. False" "Num 255" "Num 0" "Num 0" "Num 2" "Num 40"]
  by simp

text \<open>What does hold: once a warm-up has been started, stopping it any number of times
  does not raise, and with the session open each stop leaves range OFF and output 0.\<close>

lemma stop_after_start_does_not_raise:
  "fst (stop_sample_space_warmup (start_sample_space_warmup tc)) = None
   \<and> fst (stop_sample_space_warmup (snd (stop_sample_space_warmup (start_sample_space_warmup tc)))) = None"
  by (simp add: stop_sample_space_warmup_def start_sample_space_warmup_def
        set_sample_space_manual_output_def set_sample_space_heater_range_def Let_def)

lemma stop_twice_leaves_heater_off:
  assumes "connected tc"
  shows "sample_space_range (snd (stop_sample_space_warmup
            (snd (stop_sample_space_warmup (start_sample_space_warmup tc))))) = Num 0
       \<and> sample_space_mout (snd (stop_sample_space_warmup
            (snd (stop_sample_space_warmup (start_sample_space_warmup tc))))) = Num 0"
  using assms
  by (simp add: stop_sample_space_warmup_def start_sample_space_warmup_def
        set_sample_space_manual_output_def set_sample_space_heater_range_def Let_def)

section \<open>Discovery\<close>

declare read_while_bytes.simps [simp del]















section \<open>Warm-up: still far below the target\<close>









section \<open>The heater ceiling\<close>

lemma new_wire_same [simp]: "new_wire tc tc = []"
  by (simp add: new_wire_def)

lemma HeaterRangeValues_of_value [simp]:
  "HeaterRangeValues_of (Num (real_of_int (range_value rng))) = Inr rng"
  by (cases rng) (simp_all add: HeaterRangeValues_of_def)

















end
